theory Spec2Isabelle
  imports Complex_Main
begin

section \<open>Python values\<close>

text \<open>
  Every exception the two modules can raise is a value of \<open>error\<close>; a function that may
  raise returns \<open>error + 'a\<close> with \<open>Inl\<close> for the exception.
\<close>

datatype error =
    IndexError
  | KeyError string
  | AssertionError
  | ZeroDivisionError
  | TypeError string
  | RuntimeError string
  | NameError string
  | ValueError string

definition bind_err :: "error + 'a \<Rightarrow> ('a \<Rightarrow> error + 'b) \<Rightarrow> error + 'b" where
  "bind_err m f = (case m of Inl e \<Rightarrow> Inl e | Inr v \<Rightarrow> f v)"

text \<open>
  Python floats are modelled as real numbers. The one quantity the code tests for
  infinity, \<open>magnorm\<close>, carries the non-finite values as well.
\<close>

datatype pyfloat = Fin real | PInf | NInf | NaN

definition isinf :: "pyfloat \<Rightarrow> bool" where
  "isinf p = (case p of PInf \<Rightarrow> True | NInf \<Rightarrow> True | _ \<Rightarrow> False)"

text \<open>\<open>p >= c\<close> for a finite \<open>c\<close>; every comparison with NaN is false.\<close>

definition pf_ge :: "pyfloat \<Rightarrow> real \<Rightarrow> bool" where
  "pf_ge p c = (case p of Fin x \<Rightarrow> c \<le> x | PInf \<Rightarrow> True | NInf \<Rightarrow> False | NaN \<Rightarrow> False)"

text \<open>\<open>p * k\<close> for a finite \<open>k\<close>.\<close>

definition pf_times :: "pyfloat \<Rightarrow> real \<Rightarrow> pyfloat" where
  "pf_times p k =
     (case p of
        Fin x \<Rightarrow> Fin (x * k)
      | PInf \<Rightarrow> (if 0 < k then PInf else if k < 0 then NInf else NaN)
      | NInf \<Rightarrow> (if 0 < k then NInf else if k < 0 then PInf else NaN)
      | NaN \<Rightarrow> NaN)"

text \<open>
  \<open>xs[i]\<close> on a Python list: a negative index counts from the end, and an index outside
  \<open>[-len, len)\<close> raises IndexError.
\<close>

definition py_get :: "'a list \<Rightarrow> int \<Rightarrow> error + 'a" where
  "py_get xs i =
     (let n = int (length xs); j = (if i < 0 then i + n else i)
      in if 0 \<le> j \<and> j < n then Inr (xs ! nat j) else Inl IndexError)"

text \<open>
  \<open>x / y\<close> on Python floats raises ZeroDivisionError for \<open>y = 0\<close>.
\<close>

definition py_truediv :: "real \<Rightarrow> real \<Rightarrow> error + real" where
  "py_truediv x y = (if y = 0 then Inl ZeroDivisionError else Inr (x / y))"

text \<open>
  \<open>round(x)\<close> with one argument (Python 3): the nearest integer, a tie going to the
  even neighbour.
\<close>

definition py_round :: "real \<Rightarrow> int" where
  "py_round x =
     (let f = \<lfloor>x\<rfloor>; d = x - of_int f
      in if d < 1 / 2 then f
         else if 1 / 2 < d then f + 1
         else if even f then f else f + 1)"

text \<open>\<open>"%s" % component\<close> for a component that is a string or None.\<close>

definition str_of_component :: "string option \<Rightarrow> string" where
  "str_of_component c = (case c of None \<Rightarrow> ''None'' | Some s \<Rightarrow> s)"

section \<open>The sky catalog interface (imsim/skycat.py)\<close>

subsection \<open>Catalog objects and external services\<close>

text \<open>
  A skyCatalogs object, as far as the interface reads it: its type, its subcomponents,
  its position, its native attributes by column name (a missing column raises), and
  its \<open>get_sed\<close> method, which returns wavelengths, flux densities and magnorm.
\<close>

record skycat_object =
  object_type :: string
  subcomponents :: "string list"
  ra :: real
  dec :: real
  native :: "string \<rightharpoonup> real"
  get_sed :: "string option \<Rightarrow> error + (real list \<times> real list \<times> pyfloat)"

definition get_native_attribute :: "skycat_object \<Rightarrow> string \<Rightarrow> error + real" where
  "get_native_attribute obj name =
     (case native obj name of None \<Rightarrow> Inl (KeyError name) | Some v \<Rightarrow> Inr v)"

text \<open>
  The galsim services the interface consumes. \<open>make_sed wl flambda\<close> stands for the three
  calls of \<open>getSED_info\<close> that build the lookup table, wrap it as an SED and normalise it
  to magnitude 0 in the 500 nm bandpass (any of them may raise); \<open>calculateFlux\<close> is the
  SED's integral through a bandpass. The SED type \<open>'s\<close> and the bandpass type \<open>'b\<close> are
  opaque.
\<close>

record ('s, 'b) galsim =
  make_sed :: "real list \<Rightarrow> real list \<Rightarrow> error + 's"
  calculateFlux :: "'s \<Rightarrow> 'b \<Rightarrow> real"

text \<open>
  A galsim profile is represented by the constructor call that made it; \<open>gsparams\<close> and
  \<open>rng\<close> are handed through to the constructors unchanged and are left out.
  \<open>Sersic n hlr\<close>, \<open>RandomKnots npoints hlr\<close>.
\<close>

datatype profile = DeltaFunction | Sersic real real | RandomKnots real real

text \<open>
  The object \<open>getObj\<close> returns: the profile, the shear \<open>(q, beta)\<close> with \<open>beta\<close> in
  degrees, the lens distortion \<open>(g1, g2, mu)\<close>, the flux given to \<open>withFlux\<close>, and the
  SED it is multiplied by in chromatic mode.
\<close>

record 's gsobject =
  base :: profile
  shear :: "(real \<times> real) option"
  lens :: "(real \<times> real \<times> real) option"
  flux :: pyfloat
  sed_factor :: "'s option"

subsection \<open>SkyCatalogInterface\<close>

text \<open>
  The fields of the class: \<open>objects\<close>, \<open>flip_g2\<close> and the list \<open>_index\<close> (here
  \<open>p_index\<close>) of pairs (object index, component or None).
\<close>

record skycat_interface =
  objects :: "skycat_object list"
  flip_g2 :: bool
  p_index :: "(int \<times> string option) list"

text \<open>\<open>_index_subcomponents\<close>, the loop over \<open>enumerate(self.objects)\<close> from position \<open>i\<close>.\<close>

fun index_subcomponents :: "int \<Rightarrow> skycat_object list \<Rightarrow> (int \<times> string option) list" where
  "index_subcomponents i [] = []"
| "index_subcomponents i (obj # objs) =
     (if subcomponents obj = [] then [(i, None)]
      else map (\<lambda>component. (i, Some component)) (subcomponents obj))
     @ index_subcomponents (i + 1) objs"

text \<open>The constructor, given the objects the catalog query returned.\<close>

definition SkyCatalogInterface :: "skycat_object list \<Rightarrow> bool \<Rightarrow> skycat_interface" where
  "SkyCatalogInterface objs flip =
     \<lparr>objects = objs, flip_g2 = flip, p_index = index_subcomponents 0 objs\<rparr>"

definition get_skycat_obj :: "skycat_interface \<Rightarrow> int \<Rightarrow> error + skycat_object" where
  "get_skycat_obj self index =
     bind_err (py_get (p_index self) index)
       (\<lambda>(obj_index, _). py_get (objects self) obj_index)"

definition getNObjects :: "skycat_interface \<Rightarrow> int" where
  "getNObjects self = int (length (p_index self))"

definition getSED_info ::
  "('s, 'b) galsim \<Rightarrow> skycat_interface \<Rightarrow> int \<Rightarrow> error + ('s option \<times> pyfloat)" where
  "getSED_info gs self index =
     bind_err (py_get (p_index self) index) (\<lambda>(obj_index, component).
     bind_err (py_get (objects self) obj_index) (\<lambda>obj.
     bind_err (get_sed obj component) (\<lambda>(wl, flambda, magnorm).
       if isinf magnorm then Inr (None, magnorm)
       else bind_err (make_sed gs wl flambda) (\<lambda>sed. Inr (Some sed, magnorm)))))"

text \<open>\<open>getWorldPos\<close>: the coordinate, as (ra, dec) in degrees.\<close>

definition getWorldPos :: "skycat_interface \<Rightarrow> int \<Rightarrow> error + (real \<times> real)" where
  "getWorldPos self index =
     bind_err (get_skycat_obj self index) (\<lambda>skycat_obj. Inr (ra skycat_obj, dec skycat_obj))"

definition getLens :: "skycat_interface \<Rightarrow> int \<Rightarrow> error + (real \<times> real \<times> real)" where
  "getLens self index =
     bind_err (get_skycat_obj self index) (\<lambda>skycat_obj.
     bind_err (get_native_attribute skycat_obj ''shear_1'') (\<lambda>gamma1.
     bind_err (get_native_attribute skycat_obj ''shear_2'') (\<lambda>gamma2.
     bind_err (get_native_attribute skycat_obj ''convergence'') (\<lambda>kappa.
     bind_err (py_truediv gamma1 (1 - kappa)) (\<lambda>g1.
     bind_err (py_truediv gamma2 (1 - kappa)) (\<lambda>g2.
     bind_err (py_truediv 1 ((1 - kappa)\<^sup>2 - (gamma1\<^sup>2 + gamma2\<^sup>2))) (\<lambda>mu.
       Inr (g1, g2, mu))))))))"

definition getDust ::
  "skycat_interface \<Rightarrow> int \<Rightarrow> string \<Rightarrow> error + (real \<times> real \<times> real \<times> real)" where
  "getDust self index band =
     bind_err (get_skycat_obj self index) (\<lambda>skycat_obj.
     bind_err (get_native_attribute skycat_obj (''MW_av_lsst_'' @ band)) (\<lambda>galactic_av.
     bind_err (get_native_attribute skycat_obj ''MW_rv'') (\<lambda>galactic_rv.
       Inr (0, 1, galactic_av, galactic_rv))))"

text \<open>The class constant \<open>_rubin_area\<close>, in square centimetres.\<close>

definition p_rubin_area :: real where
  "p_rubin_area = 0.25 * pi * 649\<^sup>2"

text \<open>The Sersic index as \<open>getObj\<close> quantizes it: \<open>round(n*20.)/20.\<close>\<close>

definition quantize :: "real \<Rightarrow> real" where
  "quantize n = of_int (py_round (n * 20)) / 20"

text \<open>The flux for a magnorm: \<open>math.exp(-0.9210340371976184 * magnorm)\<close>.\<close>

definition magnorm_flux :: "real \<Rightarrow> real" where
  "magnorm_flux magnorm = exp (- 0.9210340371976184 * magnorm)"

definition magnorm_flux_pf :: "pyfloat \<Rightarrow> pyfloat" where
  "magnorm_flux_pf magnorm =
     (case magnorm of
        Fin m \<Rightarrow> Fin (magnorm_flux m)
      | PInf \<Rightarrow> Fin 0
      | NInf \<Rightarrow> PInf
      | NaN \<Rightarrow> NaN)"

text \<open>
  \<open>getObj\<close>. The result is \<open>Inr None\<close> where the code returns None. The half-light
  radius \<open>(a*b)**0.5\<close> of a negative product is a complex number in Python, which the
  galsim constructor cannot convert to a float; \<open>exp_time\<close> is None when the caller
  found no exposure time, and the product with None raises.
\<close>

definition getObj ::
  "('s, 'b) galsim \<Rightarrow> skycat_interface \<Rightarrow> int \<Rightarrow> 'b \<Rightarrow> bool \<Rightarrow> real option
     \<Rightarrow> error + 's gsobject option" where
  "getObj gs self index bandpass chromatic exp_time =
     bind_err (py_get (p_index self) index) (\<lambda>(obj_index, component).
     bind_err (py_get (objects self) obj_index) (\<lambda>skycat_obj.
     bind_err (getSED_info gs self index) (\<lambda>(sed_opt, magnorm).
       case sed_opt of
         None \<Rightarrow> Inr None
       | Some sed \<Rightarrow>
           if pf_ge magnorm 50 then Inr None
           else
             bind_err
               (if object_type skycat_obj = ''star'' then Inr (DeltaFunction, None, None)
                else if object_type skycat_obj = ''galaxy''
                        \<and> component \<in> set [Some ''bulge'', Some ''disk'', Some ''knots'']
                then
                  (let my_component =
                         (if component = Some ''knots'' then ''disk''
                          else str_of_component component)
                   in
                   bind_err (get_native_attribute skycat_obj
                               (''size_'' @ my_component @ ''_true'')) (\<lambda>a.
                   bind_err (get_native_attribute skycat_obj
                               (''size_minor_'' @ my_component @ ''_true'')) (\<lambda>b.
                   if \<not> b \<le> a then Inl AssertionError
                   else
                   bind_err (get_native_attribute skycat_obj
                               ''position_angle_unlensed'') (\<lambda>pa.
                   let beta = (if flip_g2 self then 90 - pa else 90 + pa);
                       hlr = sqrt (a * b)
                   in
                   bind_err
                     (if component = Some ''knots'' then
                        bind_err (get_native_attribute skycat_obj ''n_knots'') (\<lambda>npoints.
                        if \<not> 0 < npoints then Inl AssertionError
                        else if a * b < 0 then Inl (TypeError ''half_light_radius'')
                        else Inr (RandomKnots npoints hlr))
                      else
                        bind_err (get_native_attribute skycat_obj
                                    (''sersic_'' @ str_of_component component)) (\<lambda>n.
                        if a * b < 0 then Inl (TypeError ''half_light_radius'')
                        else Inr (Sersic (quantize n) hlr))) (\<lambda>obj.
                   bind_err (py_truediv b a) (\<lambda>q.
                   bind_err (getLens self index) (\<lambda>(g1, g2, mu).
                     Inr (obj, Some (q, beta), Some (g1, g2, mu)))))))))
                else Inl (RuntimeError (''Do not know how to handle object type: ''
                                        @ str_of_component component)))
               (\<lambda>(obj, sh, ln).
                  let flux0 = magnorm_flux_pf magnorm in
                  bind_err
                    (case exp_time of
                       None \<Rightarrow> Inl (TypeError ''exp_time'')
                     | Some t \<Rightarrow> Inr (pf_times (pf_times flux0 p_rubin_area) t)) (\<lambda>fAt.
                  if chromatic then
                    Inr (Some \<lparr>base = obj, shear = sh, lens = ln, flux = fAt,
                               sed_factor = Some sed\<rparr>)
                  else
                    Inr (Some \<lparr>base = obj, shear = sh, lens = ln,
                               flux = pf_times fAt (calculateFlux gs sed bandpass),
                               sed_factor = None\<rparr>))))))"

section \<open>The sky model (python/desc/imsim/skyModel.py)\<close>

subsection \<open>Data and external services\<close>

definition py_lookup :: "(string \<rightharpoonup> 'v) \<Rightarrow> string \<Rightarrow> error + 'v" where
  "py_lookup d k = (case d k of None \<Rightarrow> Inl (KeyError k) | Some v \<Rightarrow> Inr v)"

text \<open>
  A count handed to a constructor is a Python number that is either an integer or a
  float; the distinction decides whether \<open>galsim.PhotonArray\<close> accepts it.
\<close>

datatype pynumber = IntNum int | FloatNum real

text \<open>
  An astropy quantity: a number with a unit. \<open>skyCountsPerSec\<close> multiplies its factors by
  units, so its result is a quantity in electrons per second, and the product with the
  exposure time (in \<open>u.s\<close>) is a quantity in electrons.
\<close>

datatype q_unit = electron_per_s | electron

datatype quantity = Quantity real q_unit

text \<open>\<open>rate * t\<close> for a time \<open>t\<close> in seconds, and \<open>q * k\<close> for a plain number \<open>k\<close>.\<close>

definition times_seconds :: "quantity \<Rightarrow> real \<Rightarrow> quantity" where
  "times_seconds q t = (case q of Quantity v _ \<Rightarrow> Quantity (v * t) electron)"

definition q_scale :: "quantity \<Rightarrow> real \<Rightarrow> quantity" where
  "q_scale q k = (case q of Quantity v u \<Rightarrow> Quantity (v * k) u)"

text \<open>
  The value passed as \<open>skyLevel\<close>: the plain float \<open>0.0\<close> of the background branch, or the
  quantity \<open>skyCounts*photParams.gain\<close>.
\<close>

datatype sky_level_arg = FloatLevel real | QuantityLevel quantity

record obs_metadata =
  pointingRA :: real
  pointingDec :: real
  mjd_TAI :: real
  om_bandpass :: string

record phot_params =
  nexp :: real
  exptime :: real
  gain :: real
  readnoise :: real

text \<open>
  A galsim image: the bounds of its pixel centres and its pixel array, row by row.
\<close>

record image =
  xmin :: int
  xmax :: int
  ymin :: int
  ymax :: int
  array :: "real list list"

text \<open>\<open>image.array.shape\<close> and \<open>np.prod\<close> of it.\<close>

definition array_shape :: "image \<Rightarrow> nat \<times> nat" where
  "array_shape img =
     (length (array img), (case array img of [] \<Rightarrow> 0 | row # _ \<Rightarrow> length row))"

definition np_prod :: "nat \<times> nat \<Rightarrow> nat" where
  "np_prod shape = fst shape * snd shape"

text \<open>What \<open>galsim.CCDNoise\<close> is constructed from, its random deviate apart.\<close>

record ccd_noise =
  sky_level :: real
  cn_gain :: real
  cn_read_noise :: real

text \<open>
  \<open>galsim.PhotonArray(N)\<close>: arrays of \<open>N\<close> zeros for an integer \<open>N\<close>. A float count is
  refused with a TypeError, and a negative one cannot be allocated.
\<close>

record photon_array =
  pa_x :: "real list"
  pa_y :: "real list"
  pa_flux :: "real list"

definition PhotonArray :: "pynumber \<Rightarrow> error + photon_array" where
  "PhotonArray N =
     (case N of
        FloatNum _ \<Rightarrow> Inl (TypeError ''PhotonArray'')
      | IntNum n \<Rightarrow>
          if n < 0 then Inl (ValueError ''PhotonArray'')
          else Inr \<lparr>pa_x = replicate (nat n) 0, pa_y = replicate (nat n) 0,
                    pa_flux = replicate (nat n) 0\<rparr>)"

text \<open>
  The collaborators of the sky model: the sky-brightness model (magnitudes by band for
  a pointing and date), the configured \<open>skyModel_params\<close>, the stream of numbers the
  uniform deviate produces, and the effect of \<open>image.addNoise\<close> on a pixel array, which
  also advances the deviate.
\<close>

record sky_services =
  returnMags :: "real \<Rightarrow> real \<Rightarrow> real \<Rightarrow> (string \<rightharpoonup> real)"
  get_skyModel_params :: "string \<rightharpoonup> real"
  uniform :: "nat \<Rightarrow> real"
  image_addNoise :: "ccd_noise \<Rightarrow> nat \<Rightarrow> real list list \<Rightarrow> real list list \<times> nat"

text \<open>
  The mutable objects: images live in a store, addressed by reference, so that the
  caller's image and a copy of it are distinct objects; \<open>randomNumbers\<close> is the position
  of the model's uniform deviate in its stream.
\<close>

record world =
  heap :: "nat \<Rightarrow> image"
  next_ref :: nat
  randomNumbers :: nat

record eso_sky_model =
  obs_metadata :: obs_metadata
  addNoise :: bool
  addBackground :: bool

subsection \<open>Operations\<close>

text \<open>
  \<open>skyCountsPerSec\<close> with its default area \<open>32.4 m\<^sup>2\<close> and pixel size \<open>0.2 arcsec\<close>; the
  conversion of the magnitude difference to a linear ratio is \<open>10 ** (-0.4 * dB)\<close>. The
  result is a quantity in electrons per second.
\<close>

definition skyCountsPerSec :: "sky_services \<Rightarrow> real \<Rightarrow> string \<Rightarrow> error + quantity" where
  "skyCountsPerSec sv surface_brightness filter_band =
     (let pars = get_skyModel_params sv in
      bind_err (py_lookup pars filter_band) (\<lambda>s0.
      bind_err (py_lookup pars ''B0'') (\<lambda>B0.
        let dB = surface_brightness - B0
        in Inr (Quantity (s0 * (10 powr (- 0.4 * dB)) * 0.2\<^sup>2 * 32.4) electron_per_s))))"

text \<open>
  \<open>getNoiseModel\<close>: \<open>galsim.CCDNoise\<close> takes its sky level as a plain float and refuses a
  quantity with a TypeError.
\<close>

definition getNoiseModel :: "sky_level_arg \<Rightarrow> phot_params \<Rightarrow> error + ccd_noise" where
  "getNoiseModel skyLevel photParams =
     (case skyLevel of
        QuantityLevel _ \<Rightarrow> Inl (TypeError ''CCDNoise'')
      | FloatLevel v \<Rightarrow>
          Inr \<lparr>sky_level = v, cn_gain = gain photParams,
                cn_read_noise = readnoise photParams\<rparr>)"

text \<open>\<open>deviate.generate(arr)\<close>: the next \<open>n\<close> numbers of the stream.\<close>

definition generate :: "sky_services \<Rightarrow> nat \<Rightarrow> nat \<Rightarrow> real list \<times> nat" where
  "generate sv pos n = (map (uniform sv) [pos ..< pos + n], pos + n)"

text \<open>\<open>image.copy()\<close>: a new object with the same content.\<close>

definition image_copy :: "nat \<Rightarrow> world \<Rightarrow> nat \<times> world" where
  "image_copy r w =
     (next_ref w, w\<lparr>heap := (heap w)(next_ref w := heap w r), next_ref := Suc (next_ref w)\<rparr>)"

text \<open>
  The statements of \<open>addNoiseAndBackground\<close> that set the photon positions: the x array
  is filled from the deviate, and the next statement reads the name \<open>photon_arra\<close>, which
  is bound nowhere. The result is the exception and the position of the deviate.
\<close>

definition set_photon_positions :: "sky_services \<Rightarrow> photon_array \<Rightarrow> nat \<Rightarrow> error \<times> nat" where
  "set_photon_positions sv photon_array pos =
     (let (xs, pos') = generate sv pos (length (pa_x photon_array));
          photon_array = photon_array\<lparr>pa_x := xs\<rparr>
      in (NameError ''photon_arra'', pos'))"

text \<open>
  \<open>addNoiseAndBackground\<close>, on the reference of the caller's image; the result is the
  reference of the returned image, or the exception, with the store as the call leaves
  it. The photon count \<open>photons_per_pixel * npix\<close> is a float, \<open>photons_per_pixel\<close> being
  \<open>100.\<close>; the sky level of the branch without background is a quantity.
\<close>

definition addNoiseAndBackground ::
  "sky_services \<Rightarrow> eso_sky_model \<Rightarrow> nat \<Rightarrow> phot_params \<Rightarrow> world \<Rightarrow> (error + nat) \<times> world" where
  "addNoiseAndBackground sv self image_ref photParams w =
     (let md = obs_metadata self;
          bandPassName = om_bandpass md
      in
      case bind_err (py_lookup (returnMags sv (pointingRA md) (pointingDec md) (mjd_TAI md))
                       bandPassName) (\<lambda>skyMagnitude.
           bind_err (skyCountsPerSec sv skyMagnitude bandPassName) (\<lambda>rate.
             let exposureTime = nexp photParams * exptime photParams
             in Inr (times_seconds rate exposureTime))) of
        Inl e \<Rightarrow> (Inl e, w)
      | Inr skyCounts \<Rightarrow>
          (case image_copy image_ref w of (img, w1) \<Rightarrow>
             if addBackground self then
               (let npix = np_prod (array_shape (heap w1 img));
                    photons_per_pixel = 100;
                    flux_per_photon = q_scale skyCounts (1 / photons_per_pixel);
                    nphotons = FloatNum (photons_per_pixel * real npix)
                in case PhotonArray nphotons of
                     Inl e \<Rightarrow> (Inl e, w1)
                   | Inr photon_array \<Rightarrow>
                       (case set_photon_positions sv photon_array (randomNumbers w1) of
                          (e, pos) \<Rightarrow> (Inl e, w1\<lparr>randomNumbers := pos\<rparr>)))
             else
               (let skyLevel = QuantityLevel (q_scale skyCounts (gain photParams)) in
                if addNoise self then
                  (case getNoiseModel skyLevel photParams of
                     Inl e \<Rightarrow> (Inl e, w1)
                   | Inr noiseModel \<Rightarrow>
                       (let (pixels, pos) = image_addNoise sv noiseModel (randomNumbers w1)
                                              (array (heap w1 img))
                        in (Inr img,
                            w1\<lparr>heap := (heap w1)(img := (heap w1 img)\<lparr>array := pixels\<rparr>),
                               randomNumbers := pos\<rparr>)))
                else (Inr img, w1))))"

section \<open>The inverse of the lensing formulas\<close>

text \<open>
  The source has no inverse of \<open>getLens\<close>. This is the inversion the round-trip property
  of the specification refers to, written for the comparison with \<open>getLens\<close>: from
  \<open>mu * (1 - (g1\<^sup>2 + g2\<^sup>2)) = 1 / (1 - kappa)\<^sup>2\<close> it takes the positive root for
  \<open>1 - kappa\<close> and multiplies the reduced shear back.
\<close>

definition spec_lens_inverse :: "real \<times> real \<times> real \<Rightarrow> real \<times> real \<times> real" where
  "spec_lens_inverse t =
     (case t of (g1, g2, mu) \<Rightarrow>
        let one_minus_kappa = 1 / sqrt (mu * (1 - (g1\<^sup>2 + g2\<^sup>2)))
        in (g1 * one_minus_kappa, g2 * one_minus_kappa, 1 - one_minus_kappa))"

section \<open>Concrete catalogs and sky models\<close>

text \<open>
  A catalog object with the given type, subcomponents, native columns and magnorm, and
  galsim services on trivial SED and bandpass types.
\<close>

definition ex_object ::
  "string \<Rightarrow> string list \<Rightarrow> (string \<times> real) list \<Rightarrow> pyfloat \<Rightarrow> skycat_object" where
  "ex_object t cs columns m =
     \<lparr>object_type = t, subcomponents = cs, ra = 10, dec = - 5, native = map_of columns,
      get_sed = (\<lambda>_. Inr ([400, 600], [1, 1], m))\<rparr>"

definition ex_galsim :: "(unit, unit) galsim" where
  "ex_galsim = \<lparr>make_sed = (\<lambda>_ _. Inr ()), calculateFlux = (\<lambda>_ _. 1)\<rparr>"

definition ex_star_catalog :: skycat_interface where
  "ex_star_catalog = SkyCatalogInterface [ex_object ''star'' [] [] PInf] True"

definition ex_bulge_catalog :: skycat_interface where
  "ex_bulge_catalog =
     SkyCatalogInterface
       [ex_object ''galaxy'' [''bulge'']
          [(''size_bulge_true'', 2), (''size_minor_bulge_true'', 1),
           (''position_angle_unlensed'', 30), (''sersic_bulge'', 4),
           (''shear_1'', 0), (''shear_2'', 0), (''convergence'', 0)] (Fin 20)] True"

definition ex_knots_columns :: "(string \<times> real) list" where
  "ex_knots_columns =
     [(''size_disk_true'', 2), (''size_minor_disk_true'', 1),
      (''position_angle_unlensed'', 30), (''n_knots'', 0),
      (''shear_1'', 0), (''shear_2'', 0), (''convergence'', 0)]"

definition ex_knots_catalog :: "pyfloat \<Rightarrow> skycat_interface" where
  "ex_knots_catalog m =
     SkyCatalogInterface [ex_object ''galaxy'' [''knots''] ex_knots_columns m] True"

definition ex_swapped_catalog :: skycat_interface where
  "ex_swapped_catalog =
     SkyCatalogInterface
       [ex_object ''galaxy'' [''disk'']
          [(''size_disk_true'', 1), (''size_minor_disk_true'', 2)] (Fin 20)] True"

definition ex_lens_catalog :: skycat_interface where
  "ex_lens_catalog =
     SkyCatalogInterface
       [ex_object ''galaxy'' []
          [(''shear_1'', 0), (''shear_2'', 0), (''convergence'', 0)] (Fin 20),
        ex_object ''galaxy'' []
          [(''shear_1'', 0), (''shear_2'', 0), (''convergence'', 2)] (Fin 20),
        ex_object ''galaxy'' []
          [(''shear_1'', 3 / 20), (''shear_2'', 1 / 5), (''convergence'', 1 / 2)] (Fin 20)]
       True"

text \<open>
  A sky model in band r whose brightness equals the reference brightness, so that the
  sky rate is the zero point times pixel area and aperture (1296 electrons per second);
  a noise service that adds the sky level to every pixel; and a world holding one
  image.
\<close>

definition ex_services :: sky_services where
  "ex_services =
     \<lparr>returnMags = (\<lambda>_ _ _. [''r'' \<mapsto> 24]),
      get_skyModel_params = [''r'' \<mapsto> 1000, ''B0'' \<mapsto> 24],
      uniform = (\<lambda>_. 1 / 2),
      image_addNoise = (\<lambda>nm pos px. (map (map (\<lambda>v. v + sky_level nm)) px, pos + 1))\<rparr>"

definition ex_model :: "bool \<Rightarrow> bool \<Rightarrow> eso_sky_model" where
  "ex_model noise background =
     \<lparr>obs_metadata = \<lparr>pointingRA = 0, pointingDec = 0, mjd_TAI = 59000, om_bandpass = ''r''\<rparr>,
      addNoise = noise, addBackground = background\<rparr>"

definition ex_phot :: phot_params where
  "ex_phot = \<lparr>nexp = 2, exptime = 15, gain = 1, readnoise = 0\<rparr>"

definition ex_image :: "real list list \<Rightarrow> image" where
  "ex_image px =
     \<lparr>xmin = 1, xmax = (case px of [] \<Rightarrow> 0 | row # _ \<Rightarrow> int (length row)), ymin = 1,
      ymax = int (length px), array = px\<rparr>"

definition ex_world :: "real list list \<Rightarrow> world" where
  "ex_world px = \<lparr>heap = (\<lambda>_. ex_image px), next_ref = 1, randomNumbers = 0\<rparr>"

section \<open>Properties\<close>

subsection \<open>Sequencing and list indexing\<close>

lemma bind_err_Inl: "bind_err (Inl e) f = Inl e"
  by (simp add: bind_err_def)

lemma bind_err_Inr: "bind_err (Inr v) f = f v"
  by (simp add: bind_err_def)

lemma py_get_out_of_range:
  "int (length xs) \<le> i \<or> i < - int (length xs) \<Longrightarrow> py_get xs i = Inl IndexError"
  by (auto simp: py_get_def Let_def)

lemma py_get_negative:
  "- int (length xs) \<le> i \<Longrightarrow> i < 0 \<Longrightarrow> py_get xs i = py_get xs (i + int (length xs))"
  by (auto simp: py_get_def Let_def)

subsection \<open>Resolving an index\<close>

lemma ex_star_index: "p_index ex_star_catalog = [(0, None)]"
  by (simp add: ex_star_catalog_def SkyCatalogInterface_def ex_object_def)

text \<open>
  C5, as the code has it. An index at or beyond \<open>count()\<close>, or below \<open>-count()\<close>, makes
  \<open>get_skycat_obj\<close>, \<open>getSED_info\<close>, \<open>getWorldPos\<close> and \<open>getObj\<close> fail with IndexError.
  A negative index in \<open>[-count(), 0)\<close> is not rejected: the list lookup counts it from
  the end, so it resolves to the entry at \<open>index + count()\<close>.
\<close>

theorem resolve_outside_range:
  "(getNObjects self \<le> index \<or> index < - getNObjects self \<longrightarrow>
      get_skycat_obj self index = Inl IndexError
      \<and> getSED_info gs self index = Inl IndexError
      \<and> getWorldPos self index = Inl IndexError
      \<and> getObj gs self index bandpass chromatic exp_time = Inl IndexError)
   \<and> (- getNObjects self \<le> index \<and> index < 0 \<longrightarrow>
      get_skycat_obj self index = get_skycat_obj self (index + getNObjects self))"
proof (intro conjI impI)
  assume out: "getNObjects self \<le> index \<or> index < - getNObjects self"
  then have miss: "py_get (p_index self) index = Inl IndexError"
    unfolding getNObjects_def by (rule py_get_out_of_range)
  show "get_skycat_obj self index = Inl IndexError"
    by (simp add: get_skycat_obj_def miss bind_err_Inl)
  then show "getWorldPos self index = Inl IndexError"
    by (simp add: getWorldPos_def bind_err_Inl)
  show "getSED_info gs self index = Inl IndexError"
    by (simp add: getSED_info_def miss bind_err_Inl)
  show "getObj gs self index bandpass chromatic exp_time = Inl IndexError"
    by (simp add: getObj_def miss bind_err_Inl)
next
  assume "- getNObjects self \<le> index \<and> index < 0"
  then have "py_get (p_index self) index = py_get (p_index self) (index + getNObjects self)"
    unfolding getNObjects_def by (simp add: py_get_negative)
  then show "get_skycat_obj self index = get_skycat_obj self (index + getNObjects self)"
    by (simp add: get_skycat_obj_def)
qed

theorem resolve_outside_range_witness:
  "get_skycat_obj ex_star_catalog 1 = Inl IndexError
   \<and> getSED_info ex_galsim ex_star_catalog 1 = Inl IndexError
   \<and> getWorldPos ex_star_catalog 1 = Inl IndexError
   \<and> getObj ex_galsim ex_star_catalog 1 () False (Some 30) = Inl IndexError
   \<and> get_skycat_obj ex_star_catalog (- 1) = get_skycat_obj ex_star_catalog 0"
  using resolve_outside_range [of ex_star_catalog 1 ex_galsim "()" False "Some 30"]
    resolve_outside_range [of ex_star_catalog "- 1" ex_galsim "()" False "Some 30"]
  by (simp add: getNObjects_def ex_star_index)

text \<open>
  In a catalog of one object, index \<open>-1\<close> lies outside \<open>[0, count())\<close> and resolves to
  that object.
\<close>

theorem negative_index_counterexample:
  "getNObjects ex_star_catalog = 1
   \<and> get_skycat_obj ex_star_catalog (- 1) = Inr (ex_object ''star'' [] [] PInf)
   \<and> getWorldPos ex_star_catalog (- 1) = Inr (10, - 5)"
  by (simp add: getNObjects_def get_skycat_obj_def getWorldPos_def py_get_def bind_err_def
      ex_star_catalog_def SkyCatalogInterface_def ex_object_def)

subsection \<open>Objects that are not rendered\<close>

lemma getSED_info_lookups:
  assumes "getSED_info gs self index = Inr r"
  obtains obj_index component obj where
    "py_get (p_index self) index = Inr (obj_index, component)"
    "py_get (objects self) obj_index = Inr obj"
  using assms
  by (auto simp: getSED_info_def bind_err_def split: sum.splits prod.splits)

lemma getSED_info_infinite:
  assumes "py_get (p_index self) index = Inr (obj_index, component)"
    and "py_get (objects self) obj_index = Inr obj"
    and "get_sed obj component = Inr (wl, flambda, magnorm)"
    and "isinf magnorm"
  shows "getSED_info gs self index = Inr (None, magnorm)"
  using assms by (simp add: getSED_info_def bind_err_Inr)

lemma getObj_guard:
  assumes "getSED_info gs self index = Inr (sed, magnorm)"
    and "sed = None \<or> pf_ge magnorm 50"
  shows "getObj gs self index bandpass chromatic exp_time = Inr None"
proof -
  from assms(1) obtain obj_index component obj where
    "py_get (p_index self) index = Inr (obj_index, component)"
    "py_get (objects self) obj_index = Inr obj"
    by (rule getSED_info_lookups)
  with assms show ?thesis
    by (auto simp: getObj_def bind_err_Inr split: option.splits)
qed

lemma ex_knots_index: "p_index (ex_knots_catalog m) = [(0, Some ''knots'')]"
  by (simp add: ex_knots_catalog_def SkyCatalogInterface_def ex_object_def)

lemma ex_knots_objects:
  "objects (ex_knots_catalog m) = [ex_object ''galaxy'' [''knots''] ex_knots_columns m]"
  by (simp add: ex_knots_catalog_def SkyCatalogInterface_def)

lemma ex_knots_SED_info:
  "\<not> isinf m \<Longrightarrow> getSED_info ex_galsim (ex_knots_catalog m) 0 = Inr (Some (), m)"
  by (simp add: getSED_info_def ex_knots_index ex_knots_objects py_get_def bind_err_Inr
      ex_object_def ex_galsim_def)

text \<open>
  C1. When the index resolves to an object whose \<open>get_sed\<close> reports magnorm \<open>+infinity\<close>,
  \<open>getObj\<close> returns None and raises nothing; more generally, whenever \<open>getSED_info\<close>
  returns a null spectrum or a magnorm of at least 50, \<open>getObj\<close> returns None.
\<close>

theorem getObj_not_rendered:
  "(py_get (p_index self) index = Inr (obj_index, component)
      \<and> py_get (objects self) obj_index = Inr obj
      \<and> get_sed obj component = Inr (wl, flambda, PInf)
    \<longrightarrow> getObj gs self index bandpass chromatic exp_time = Inr None)
   \<and> (getSED_info gs self index = Inr (sed, magnorm) \<and> (sed = None \<or> pf_ge magnorm 50)
    \<longrightarrow> getObj gs self index bandpass chromatic exp_time = Inr None)"
proof (intro conjI impI)
  assume "py_get (p_index self) index = Inr (obj_index, component)
      \<and> py_get (objects self) obj_index = Inr obj
      \<and> get_sed obj component = Inr (wl, flambda, PInf)"
  then have "getSED_info gs self index = Inr (None, PInf)"
    by (simp add: getSED_info_infinite isinf_def)
  then show "getObj gs self index bandpass chromatic exp_time = Inr None"
    by (rule getObj_guard) simp
next
  assume "getSED_info gs self index = Inr (sed, magnorm) \<and> (sed = None \<or> pf_ge magnorm 50)"
  then show "getObj gs self index bandpass chromatic exp_time = Inr None"
    by (blast intro: getObj_guard)
qed

theorem getObj_not_rendered_witness:
  "getObj ex_galsim ex_star_catalog 0 () False (Some 30) = Inr None
   \<and> getObj ex_galsim (ex_knots_catalog (Fin 50)) 0 () False (Some 30) = Inr None"
proof
  have "py_get (p_index ex_star_catalog) 0 = Inr (0, None)"
    by (simp add: ex_star_index py_get_def)
  moreover have "py_get (objects ex_star_catalog) 0 = Inr (ex_object ''star'' [] [] PInf)"
    by (simp add: ex_star_catalog_def SkyCatalogInterface_def py_get_def)
  moreover have "get_sed (ex_object ''star'' [] [] PInf) None = Inr ([400, 600], [1, 1], PInf)"
    by (simp add: ex_object_def)
  ultimately show "getObj ex_galsim ex_star_catalog 0 () False (Some 30) = Inr None"
    using getObj_not_rendered [of ex_star_catalog 0 0 None "ex_object ''star'' [] [] PInf"
        "[400, 600]" "[1, 1]" ex_galsim "()" False "Some 30"]
    by blast
next
  have "getSED_info ex_galsim (ex_knots_catalog (Fin 50)) 0 = Inr (Some (), Fin 50)"
    by (simp add: ex_knots_SED_info isinf_def)
  moreover have "pf_ge (Fin 50) 50"
    by (simp add: pf_ge_def)
  ultimately show "getObj ex_galsim (ex_knots_catalog (Fin 50)) 0 () False (Some 30) = Inr None"
    using getObj_not_rendered [where self = "ex_knots_catalog (Fin 50)" and index = 0
        and gs = ex_galsim and sed = "Some ()" and magnorm = "Fin 50"
        and bandpass = "()" and chromatic = False and exp_time = "Some 30"]
    by blast
qed

subsection \<open>Quantizing the Sersic index\<close>

lemma py_round_of_int: "py_round (of_int k) = k"
  by (simp add: py_round_def)

lemma py_round_close: "\<bar>of_int (py_round x) - x\<bar> \<le> 1 / 2"
proof -
  have "of_int \<lfloor>x\<rfloor> \<le> x" and "x < of_int \<lfloor>x\<rfloor> + 1"
    by linarith+
  then show ?thesis
    by (auto simp: py_round_def Let_def)
qed

lemma quantize_examples:
  "quantize 4.03 = 4.05 \<and> quantize 0.125 = 0.1 \<and> quantize 0.175 = 0.2"
  by (simp add: quantize_def py_round_def Let_def)

text \<open>
  C4. Quantizing is idempotent; the quantized index is an integer multiple of 0.05 and
  differs from the index by at most 0.025.
\<close>

theorem quantize_idempotent_multiple_close:
  "quantize (quantize n) = quantize n
   \<and> (\<exists>k::int. quantize n = of_int k * 0.05)
   \<and> \<bar>quantize n - n\<bar> \<le> 0.025"
proof (intro conjI)
  show "quantize (quantize n) = quantize n"
    by (simp add: quantize_def py_round_of_int)
  show "\<exists>k::int. quantize n = of_int k * 0.05"
    by (rule exI [of _ "py_round (n * 20)"]) (simp add: quantize_def)
  have "\<bar>of_int (py_round (n * 20)) - n * 20\<bar> \<le> 1 / 2"
    by (rule py_round_close)
  then show "\<bar>quantize n - n\<bar> \<le> 0.025"
    by (simp add: quantize_def field_simps abs_le_iff)
qed

subsection \<open>Magnitude to flux\<close>

text \<open>
  C6. The flux of magnorm 0 is exactly 1, and the flux is strictly decreasing in
  magnorm.
\<close>

theorem flux_unit_and_decreasing:
  "magnorm_flux 0 = 1
   \<and> (\<forall>magnorm1 magnorm2. magnorm1 < magnorm2 \<longrightarrow> magnorm_flux magnorm2 < magnorm_flux magnorm1)"
  by (simp add: magnorm_flux_def)

theorem flux_unit_and_decreasing_witness:
  "magnorm_flux 0 = 1 \<and> (20::real) < 25 \<and> magnorm_flux 25 < magnorm_flux 20"
  using flux_unit_and_decreasing by simp

subsection \<open>The profile of a bulge\<close>

lemma get_native_attribute_Some:
  "native obj name = Some v \<Longrightarrow> get_native_attribute obj name = Inr v"
  by (simp add: get_native_attribute_def)

lemma ex_bulge_index: "p_index ex_bulge_catalog = [(0, Some ''bulge'')]"
  by (simp add: ex_bulge_catalog_def SkyCatalogInterface_def ex_object_def)

lemma ex_bulge_SED_info:
  "getSED_info ex_galsim ex_bulge_catalog 0 = Inr (Some (), Fin 20)"
  by (simp add: getSED_info_def ex_bulge_index py_get_def bind_err_Inr
      ex_bulge_catalog_def SkyCatalogInterface_def ex_object_def ex_galsim_def isinf_def)

lemma ex_bulge_lens: "getLens ex_bulge_catalog 0 = Inr (0, 0, 1)"
  by (simp add: getLens_def get_skycat_obj_def ex_bulge_index py_get_def bind_err_Inr
      ex_bulge_catalog_def SkyCatalogInterface_def ex_object_def get_native_attribute_def
      py_truediv_def)

text \<open>
  C2. For a galaxy bulge with major axis 2, minor axis 1 and position angle \<open>pa\<close> that is
  rendered (its spectrum resolves with magnorm below 50, its Sersic index and lensing
  columns are present), \<open>getObj\<close> builds a Sersic profile of half-light radius \<open>sqrt 2\<close>,
  sheared with axis ratio 0.5 at angle \<open>90 - pa\<close> when \<open>flip_g2\<close> is set and \<open>90 + pa\<close>
  otherwise; for \<open>pa = 30\<close> and \<open>flip_g2\<close> the angle is 60 degrees.
\<close>

theorem getObj_bulge_profile:
  assumes "py_get (p_index self) index = Inr (obj_index, Some ''bulge'')"
    and "py_get (objects self) obj_index = Inr obj"
    and "object_type obj = ''galaxy''"
    and "getSED_info gs self index = Inr (Some sed, magnorm)"
    and "\<not> pf_ge magnorm 50"
    and "native obj ''size_bulge_true'' = Some 2"
    and "native obj ''size_minor_bulge_true'' = Some 1"
    and "native obj ''position_angle_unlensed'' = Some pa"
    and "native obj ''sersic_bulge'' = Some n"
    and "getLens self index = Inr (g1, g2, mu)"
  shows "\<exists>ob. getObj gs self index bandpass chromatic (Some t) = Inr (Some ob)
           \<and> base ob = Sersic (quantize n) (sqrt 2)
           \<and> shear ob = Some (0.5, if flip_g2 self then 90 - pa else 90 + pa)
           \<and> (pa = 30 \<and> flip_g2 self \<longrightarrow> shear ob = Some (0.5, 60))
           \<and> lens ob = Some (g1, g2, mu)"
  using assms
  by (simp add: getObj_def bind_err_Inr get_native_attribute_Some str_of_component_def
      py_truediv_def Let_def)

theorem getObj_bulge_profile_witness:
  "\<exists>ob. getObj ex_galsim ex_bulge_catalog 0 () False (Some 30) = Inr (Some ob)
         \<and> base ob = Sersic (quantize 4) (sqrt 2)
         \<and> shear ob = Some (0.5, 60)
         \<and> lens ob = Some (0, 0, 1)"
proof -
  let ?obj = "hd (objects ex_bulge_catalog)"
  have obj: "py_get (objects ex_bulge_catalog) 0 = Inr ?obj"
    by (simp add: py_get_def ex_bulge_catalog_def SkyCatalogInterface_def)
  have idx: "py_get (p_index ex_bulge_catalog) 0 = Inr (0, Some ''bulge'')"
    by (simp add: ex_bulge_index py_get_def)
  have cols: "object_type ?obj = ''galaxy''"
    "native ?obj ''size_bulge_true'' = Some 2"
    "native ?obj ''size_minor_bulge_true'' = Some 1"
    "native ?obj ''position_angle_unlensed'' = Some 30"
    "native ?obj ''sersic_bulge'' = Some 4"
    by (simp_all add: ex_bulge_catalog_def SkyCatalogInterface_def ex_object_def)
  have "\<not> pf_ge (Fin 20) 50" "flip_g2 ex_bulge_catalog"
    by (simp_all add: pf_ge_def ex_bulge_catalog_def SkyCatalogInterface_def)
  with getObj_bulge_profile [OF idx obj cols(1) ex_bulge_SED_info _ cols(2-5) ex_bulge_lens,
      of "()" False 30]
  show ?thesis by auto
qed

subsection \<open>Invariant violations\<close>

lemma ex_swapped_SED_info:
  "getSED_info ex_galsim ex_swapped_catalog 0 = Inr (Some (), Fin 20)"
  by (simp add: getSED_info_def py_get_def bind_err_Inr ex_swapped_catalog_def
      SkyCatalogInterface_def ex_object_def ex_galsim_def isinf_def)

text \<open>
  C7, as the code has it. For a galaxy whose spectrum resolves with magnorm below 50:
  a knots component with \<open>n_knots \<le> 0\<close> makes \<open>getObj\<close> fail with an assertion error, and
  so does any bulge, disk or knots component whose minor axis exceeds its major axis;
  no profile is returned. (An object that is not rendered returns None before either
  assertion is reached.)
\<close>

theorem getObj_invariant_violations:
  "(py_get (p_index self) index = Inr (obj_index, Some ''knots'')
      \<and> py_get (objects self) obj_index = Inr obj
      \<and> object_type obj = ''galaxy''
      \<and> getSED_info gs self index = Inr (Some sed, magnorm) \<and> \<not> pf_ge magnorm 50
      \<and> native obj ''size_disk_true'' = Some a
      \<and> native obj ''size_minor_disk_true'' = Some b
      \<and> native obj ''position_angle_unlensed'' = Some pa
      \<and> native obj ''n_knots'' = Some npoints \<and> npoints \<le> 0
    \<longrightarrow> getObj gs self index bandpass chromatic exp_time = Inl AssertionError)
   \<and> (py_get (p_index self) index = Inr (obj_index, Some component)
      \<and> component \<in> {''bulge'', ''disk'', ''knots''}
      \<and> py_get (objects self) obj_index = Inr obj
      \<and> object_type obj = ''galaxy''
      \<and> getSED_info gs self index = Inr (Some sed, magnorm) \<and> \<not> pf_ge magnorm 50
      \<and> native obj (''size_'' @ (if component = ''knots'' then ''disk'' else component)
                      @ ''_true'') = Some a
      \<and> native obj (''size_minor_'' @ (if component = ''knots'' then ''disk'' else component)
                      @ ''_true'') = Some b
      \<and> a < b
    \<longrightarrow> getObj gs self index bandpass chromatic exp_time = Inl AssertionError)"
proof (intro conjI impI)
  assume h: "py_get (p_index self) index = Inr (obj_index, Some ''knots'')
      \<and> py_get (objects self) obj_index = Inr obj
      \<and> object_type obj = ''galaxy''
      \<and> getSED_info gs self index = Inr (Some sed, magnorm) \<and> \<not> pf_ge magnorm 50
      \<and> native obj ''size_disk_true'' = Some a
      \<and> native obj ''size_minor_disk_true'' = Some b
      \<and> native obj ''position_angle_unlensed'' = Some pa
      \<and> native obj ''n_knots'' = Some npoints \<and> npoints \<le> 0"
  then show "getObj gs self index bandpass chromatic exp_time = Inl AssertionError"
    by (simp add: getObj_def bind_err_Inr bind_err_Inl get_native_attribute_Some Let_def)
next
  assume h: "py_get (p_index self) index = Inr (obj_index, Some component)
      \<and> component \<in> {''bulge'', ''disk'', ''knots''}
      \<and> py_get (objects self) obj_index = Inr obj
      \<and> object_type obj = ''galaxy''
      \<and> getSED_info gs self index = Inr (Some sed, magnorm) \<and> \<not> pf_ge magnorm 50
      \<and> native obj (''size_'' @ (if component = ''knots'' then ''disk'' else component)
                      @ ''_true'') = Some a
      \<and> native obj (''size_minor_'' @ (if component = ''knots'' then ''disk'' else component)
                      @ ''_true'') = Some b
      \<and> a < b"
  then have c: "component = ''bulge'' \<or> component = ''disk'' \<or> component = ''knots''"
    by blast
  from h have attrs:
    "get_native_attribute obj (''size_'' @ (if component = ''knots'' then ''disk'' else component)
        @ ''_true'') = Inr a"
    "get_native_attribute obj (''size_minor_''
        @ (if component = ''knots'' then ''disk'' else component) @ ''_true'') = Inr b"
    by (simp_all add: get_native_attribute_Some)
  from c show "getObj gs self index bandpass chromatic exp_time = Inl AssertionError"
  proof (elim disjE)
    assume "component = ''bulge''"
    with h attrs show ?thesis
      by (simp add: getObj_def bind_err_Inr bind_err_Inl str_of_component_def Let_def)
  next
    assume "component = ''disk''"
    with h attrs show ?thesis
      by (simp add: getObj_def bind_err_Inr bind_err_Inl str_of_component_def Let_def)
  next
    assume "component = ''knots''"
    with h attrs show ?thesis
      by (simp add: getObj_def bind_err_Inr bind_err_Inl str_of_component_def Let_def)
  qed
qed

theorem getObj_invariant_violations_witness:
  "getObj ex_galsim (ex_knots_catalog (Fin 20)) 0 () False (Some 30) = Inl AssertionError
   \<and> getObj ex_galsim ex_swapped_catalog 0 () False (Some 30) = Inl AssertionError"
proof
  let ?obj = "ex_object ''galaxy'' [''knots''] ex_knots_columns (Fin 20)"
  have "py_get (p_index (ex_knots_catalog (Fin 20))) 0 = Inr (0, Some ''knots'')"
    and "py_get (objects (ex_knots_catalog (Fin 20))) 0 = Inr ?obj"
    and "object_type ?obj = ''galaxy''"
    and "getSED_info ex_galsim (ex_knots_catalog (Fin 20)) 0 = Inr (Some (), Fin 20)"
    and "\<not> pf_ge (Fin 20) 50"
    and "native ?obj ''size_disk_true'' = Some 2"
    and "native ?obj ''size_minor_disk_true'' = Some 1"
    and "native ?obj ''position_angle_unlensed'' = Some 30"
    and "native ?obj ''n_knots'' = Some 0"
    by (simp_all add: ex_knots_index ex_knots_objects ex_knots_SED_info isinf_def py_get_def
        pf_ge_def ex_object_def ex_knots_columns_def)
  then show "getObj ex_galsim (ex_knots_catalog (Fin 20)) 0 () False (Some 30) = Inl AssertionError"
    using getObj_invariant_violations [where self = "ex_knots_catalog (Fin 20)" and index = 0
        and obj_index = 0 and obj = ?obj and gs = ex_galsim and sed = "()"
        and magnorm = "Fin 20" and a = 2 and b = 1 and pa = 30 and npoints = 0
        and bandpass = "()" and chromatic = False and exp_time = "Some 30"]
    by simp
next
  let ?obj = "ex_object ''galaxy'' [''disk'']
          [(''size_disk_true'', 1), (''size_minor_disk_true'', 2)] (Fin 20)"
  have "py_get (p_index ex_swapped_catalog) 0 = Inr (0, Some ''disk'')"
    and "py_get (objects ex_swapped_catalog) 0 = Inr ?obj"
    and "object_type ?obj = ''galaxy''"
    and "getSED_info ex_galsim ex_swapped_catalog 0 = Inr (Some (), Fin 20)"
    and "\<not> pf_ge (Fin 20) 50"
    and "native ?obj ''size_disk_true'' = Some 1"
    and "native ?obj ''size_minor_disk_true'' = Some 2"
    by (simp_all add: ex_swapped_SED_info py_get_def pf_ge_def)
      (simp_all add: ex_swapped_catalog_def SkyCatalogInterface_def ex_object_def)
  then show "getObj ex_galsim ex_swapped_catalog 0 () False (Some 30) = Inl AssertionError"
    using getObj_invariant_violations [where self = ex_swapped_catalog and index = 0
        and obj_index = 0 and obj = ?obj and gs = ex_galsim and sed = "()"
        and magnorm = "Fin 20" and a = 1 and b = 2 and component = "''disk''"
        and bandpass = "()" and chromatic = False and exp_time = "Some 30"]
    by simp
qed

text \<open>
  A knots component with \<open>n_knots = 0\<close> and magnorm \<open>+infinity\<close>: \<open>getObj\<close> returns None
  and no assertion fails.
\<close>

theorem knots_not_rendered_counterexample:
  "p_index (ex_knots_catalog PInf) = [(0, Some ''knots'')]
   \<and> map (\<lambda>obj. (object_type obj, native obj ''n_knots'')) (objects (ex_knots_catalog PInf))
       = [(''galaxy'', Some 0)]
   \<and> getObj ex_galsim (ex_knots_catalog PInf) 0 () False (Some 30) = Inr None"
  by (simp add: ex_knots_index ex_knots_objects ex_object_def ex_knots_columns_def
      getObj_def getSED_info_def py_get_def bind_err_Inr isinf_def)

subsection \<open>Reduced shear and magnification\<close>

lemma getLens_values:
  assumes "get_skycat_obj self index = Inr obj"
    and "native obj ''shear_1'' = Some gamma1"
    and "native obj ''shear_2'' = Some gamma2"
    and "native obj ''convergence'' = Some kappa"
    and "kappa \<noteq> 1"
    and "(1 - kappa)\<^sup>2 \<noteq> gamma1\<^sup>2 + gamma2\<^sup>2"
  shows "getLens self index =
           Inr (gamma1 / (1 - kappa), gamma2 / (1 - kappa),
                1 / ((1 - kappa)\<^sup>2 - (gamma1\<^sup>2 + gamma2\<^sup>2)))"
  using assms
  by (simp add: getLens_def bind_err_Inr get_native_attribute_Some py_truediv_def)

lemma lens_inverse_roundtrip:
  fixes gamma1 gamma2 kappa :: real
  assumes "kappa < 1" and "(1 - kappa)\<^sup>2 \<noteq> gamma1\<^sup>2 + gamma2\<^sup>2"
  shows "spec_lens_inverse (gamma1 / (1 - kappa), gamma2 / (1 - kappa),
                1 / ((1 - kappa)\<^sup>2 - (gamma1\<^sup>2 + gamma2\<^sup>2)))
         = (gamma1, gamma2, kappa)"
proof -
  let ?c = "1 - kappa"
  let ?D = "?c\<^sup>2 - (gamma1\<^sup>2 + gamma2\<^sup>2)"
  have c: "0 < ?c" and D: "?D \<noteq> 0"
    using assms by simp_all
  have "1 - ((gamma1 / ?c)\<^sup>2 + (gamma2 / ?c)\<^sup>2) = ?D / ?c\<^sup>2"
    using c by (simp add: power_divide field_simps)
  then have "1 / ?D * (1 - ((gamma1 / ?c)\<^sup>2 + (gamma2 / ?c)\<^sup>2)) = (1 / ?c)\<^sup>2"
    using D by (simp add: power_divide)
  then have "sqrt (1 / ?D * (1 - ((gamma1 / ?c)\<^sup>2 + (gamma2 / ?c)\<^sup>2))) = 1 / ?c"
    using c by (simp only: real_sqrt_abs abs_of_pos zero_less_divide_1_iff)
  then have k: "1 / sqrt (1 / ?D * (1 - ((gamma1 / ?c)\<^sup>2 + (gamma2 / ?c)\<^sup>2))) = ?c"
    by (simp only: divide_divide_eq_right mult_1 div_by_1)
  have "spec_lens_inverse (gamma1 / ?c, gamma2 / ?c, 1 / ?D)
          = (gamma1 / ?c * ?c, gamma2 / ?c * ?c, 1 - ?c)"
    unfolding spec_lens_inverse_def by (simp only: k Let_def prod.case)
  also have "\<dots> = (gamma1, gamma2, kappa)"
    using c by simp
  finally show ?thesis .
qed

lemma ex_lens_obj:
  "get_skycat_obj ex_lens_catalog 2 =
     Inr (ex_object ''galaxy'' []
          [(''shear_1'', 3 / 20), (''shear_2'', 1 / 5), (''convergence'', 1 / 2)] (Fin 20))"
  by (simp add: get_skycat_obj_def py_get_def bind_err_Inr ex_lens_catalog_def
      SkyCatalogInterface_def ex_object_def)

text \<open>
  C3, as the code has it. Away from the singularities (\<open>kappa \<noteq> 1\<close> and
  \<open>(1 - kappa)\<^sup>2 \<noteq> gamma1\<^sup>2 + gamma2\<^sup>2\<close>) \<open>getLens\<close> returns \<open>g1 = gamma1 / (1 - kappa)\<close>,
  \<open>g2 = gamma2 / (1 - kappa)\<close> and \<open>mu = 1 / ((1 - kappa)\<^sup>2 - (gamma1\<^sup>2 + gamma2\<^sup>2))\<close>; for
  \<open>kappa < 1\<close> the inverse formulas recover \<open>(gamma1, gamma2, kappa)\<close> exactly.
\<close>

theorem getLens_formulas_roundtrip:
  assumes "get_skycat_obj self index = Inr obj"
    and "native obj ''shear_1'' = Some gamma1"
    and "native obj ''shear_2'' = Some gamma2"
    and "native obj ''convergence'' = Some kappa"
    and "(1 - kappa)\<^sup>2 \<noteq> gamma1\<^sup>2 + gamma2\<^sup>2"
  shows "(kappa \<noteq> 1 \<longrightarrow>
            getLens self index =
              Inr (gamma1 / (1 - kappa), gamma2 / (1 - kappa),
                   1 / ((1 - kappa)\<^sup>2 - (gamma1\<^sup>2 + gamma2\<^sup>2))))
         \<and> (kappa < 1 \<longrightarrow>
            spec_lens_inverse
              (gamma1 / (1 - kappa), gamma2 / (1 - kappa),
               1 / ((1 - kappa)\<^sup>2 - (gamma1\<^sup>2 + gamma2\<^sup>2)))
            = (gamma1, gamma2, kappa))"
  using assms by (simp add: getLens_values lens_inverse_roundtrip)

theorem getLens_formulas_roundtrip_witness:
  "getLens ex_lens_catalog 2 = Inr (3 / 10, 2 / 5, 16 / 3)
   \<and> spec_lens_inverse (3 / 10, 2 / 5, 16 / 3) = (3 / 20, 1 / 5, 1 / 2)"
  using getLens_formulas_roundtrip [OF ex_lens_obj, of "3 / 20" "1 / 5" "1 / 2"]
  by (simp add: ex_object_def power2_eq_square)

text \<open>
  Beyond \<open>kappa = 1\<close> the round trip fails: convergence 2 and convergence 0, both with no
  shear and both away from the singularities, have the same reduced shear and
  magnification, and the inverse returns convergence 0.
\<close>

theorem lens_roundtrip_counterexample:
  "get_skycat_obj ex_lens_catalog 1 =
     Inr (ex_object ''galaxy'' [] [(''shear_1'', 0), (''shear_2'', 0), (''convergence'', 2)] (Fin 20))
   \<and> getLens ex_lens_catalog 1 = Inr (0, 0, 1)
   \<and> getLens ex_lens_catalog 0 = Inr (0, 0, 1)
   \<and> spec_lens_inverse (0, 0, 1) = (0, 0, 0)
   \<and> spec_lens_inverse (0, 0, 1) \<noteq> (0, 0, 2)"
  by (simp add: getLens_def get_skycat_obj_def py_get_def bind_err_Inr ex_lens_catalog_def
      SkyCatalogInterface_def ex_object_def get_native_attribute_def py_truediv_def
      spec_lens_inverse_def)

subsection \<open>The sky background and noise\<close>

lemma ex_skyCounts:
  "py_lookup (returnMags ex_services 0 0 59000) ''r'' = Inr 24"
  "skyCountsPerSec ex_services 24 ''r'' = Inr (Quantity 1296 electron_per_s)"
  by (simp_all add: skyCountsPerSec_def py_lookup_def ex_services_def bind_err_Inr
      power2_eq_square)

lemma ex_model_fields:
  "pointingRA (obs_metadata (ex_model n b)) = 0"
  "pointingDec (obs_metadata (ex_model n b)) = 0"
  "mjd_TAI (obs_metadata (ex_model n b)) = 59000"
  "om_bandpass (obs_metadata (ex_model n b)) = ''r''"
  "addNoise (ex_model n b) = n"
  "addBackground (ex_model n b) = b"
  by (simp_all add: ex_model_def)

lemma ex_phot_fields:
  "nexp ex_phot = 2" "exptime ex_phot = 15" "gain ex_phot = 1" "readnoise ex_phot = 0"
  by (simp_all add: ex_phot_def)

lemma ex_world_fields:
  "heap (ex_world px) r = ex_image px" "next_ref (ex_world px) = 1"
  "randomNumbers (ex_world px) = 0"
  by (simp_all add: ex_world_def)

text \<open>
  C8, at the code. The statements that set the photon positions end in the NameError
  for \<open>photon_arra\<close> whatever photon array they are given, after the numbers for x have
  been drawn; and a call with the background enabled does not reach them: once the sky
  counts are computed it ends in the TypeError of \<open>PhotonArray\<close>, with the copy of the
  image made and no number drawn. No photon position is assigned.
\<close>

theorem background_positions_never_set:
  "set_photon_positions sv photon_array pos
     = (NameError ''photon_arra'', pos + length (pa_x photon_array))
   \<and> (addBackground self
      \<and> py_lookup (returnMags sv (pointingRA (obs_metadata self))
           (pointingDec (obs_metadata self)) (mjd_TAI (obs_metadata self)))
           (om_bandpass (obs_metadata self)) = Inr skyMagnitude
      \<and> skyCountsPerSec sv skyMagnitude (om_bandpass (obs_metadata self)) = Inr rate
    \<longrightarrow> addNoiseAndBackground sv self image_ref photParams w
          = (Inl (TypeError ''PhotonArray''), snd (image_copy image_ref w)))"
  by (simp add: set_photon_positions_def generate_def addNoiseAndBackground_def Let_def
      bind_err_Inr PhotonArray_def split: prod.splits)

theorem background_positions_never_set_witness:
  "set_photon_positions ex_services
      \<lparr>pa_x = [0, 0], pa_y = [0, 0], pa_flux = [0, 0]\<rparr> 0 = (NameError ''photon_arra'', 2)
   \<and> fst (addNoiseAndBackground ex_services (ex_model True True) 0 ex_phot
            (ex_world [[0, 0], [0, 0]]))
       = Inl (TypeError ''PhotonArray'')"
  using background_positions_never_set [of ex_services
      "\<lparr>pa_x = [0, 0], pa_y = [0, 0], pa_flux = [0, 0]\<rparr>" 0 "ex_model True True" 24
      "Quantity 1296 electron_per_s" 0 ex_phot "ex_world [[0, 0], [0, 0]]"]
  by (simp add: ex_skyCounts ex_model_fields)

text \<open>
  C9, at the code. For a 2 by 3 image the photon count is the float \<open>100. * 6\<close>, which
  \<open>PhotonArray\<close> refuses: the call ends in that TypeError with no photon batch allocated
  and no number drawn, so no photon receives a flux weight, and neither the caller's
  image nor its copy has received any sky counts.
\<close>

theorem background_batch_never_allocated:
  "PhotonArray (FloatNum (100 * 6)) = Inl (TypeError ''PhotonArray'')
   \<and> (case addNoiseAndBackground ex_services (ex_model False True) 0 ex_phot
           (ex_world [[0, 0, 0], [0, 0, 0]]) of
      (res, w') \<Rightarrow>
        res = Inl (TypeError ''PhotonArray'')
        \<and> randomNumbers w' = 0
        \<and> array (heap w' 0) = [[0, 0, 0], [0, 0, 0]]
        \<and> array (heap w' 1) = [[0, 0, 0], [0, 0, 0]])"
  by (simp add: addNoiseAndBackground_def Let_def bind_err_Inr ex_skyCounts ex_model_fields
      image_copy_def np_prod_def array_shape_def ex_world_fields ex_image_def
      PhotonArray_def)

text \<open>
  C10, at the code. With the background disabled and noise requested, once the sky
  counts are computed the call ends in the TypeError of \<open>CCDNoise\<close>, whose sky level
  \<open>skyCounts * gain\<close> is a quantity: no noise model is built, no image is returned, and
  the caller's image is unchanged.
\<close>

theorem noise_model_never_built:
  assumes "\<not> addBackground self" and "addNoise self"
    and "py_lookup (returnMags sv (pointingRA (obs_metadata self))
           (pointingDec (obs_metadata self)) (mjd_TAI (obs_metadata self)))
           (om_bandpass (obs_metadata self)) = Inr skyMagnitude"
    and "skyCountsPerSec sv skyMagnitude (om_bandpass (obs_metadata self)) = Inr rate"
    and "image_ref < next_ref w"
  shows "(case addNoiseAndBackground sv self image_ref photParams w of
      (res, w') \<Rightarrow>
        res = Inl (TypeError ''CCDNoise'')
        \<and> heap w' image_ref = heap w image_ref
        \<and> randomNumbers w' = randomNumbers w)"
  using assms
  by (simp add: addNoiseAndBackground_def Let_def bind_err_Inr image_copy_def getNoiseModel_def
      split: prod.splits)

theorem noise_model_never_built_witness:
  "(case addNoiseAndBackground ex_services (ex_model True False) 0 ex_phot (ex_world [[5]]) of
      (res, w') \<Rightarrow>
        res = Inl (TypeError ''CCDNoise'')
        \<and> heap w' 0 = ex_image [[5]]
        \<and> randomNumbers w' = 0)"
  using noise_model_never_built [of "ex_model True False" ex_services 24
      "Quantity 1296 electron_per_s" 0 "ex_world [[5]]" ex_phot]
  by (simp add: ex_skyCounts ex_model_fields ex_world_fields split: prod.splits)

end
